theory Spec2Isabelle
  imports Main
begin

section \<open>Python exceptions and opaque values\<close>

text \<open>
  The module \<^verbatim>\<open>firedrake/preconditioners/assembled.py\<close> is glue between PETSc and
  the Firedrake assembler.  Its behaviour is the sequence of library calls it makes, the
  instance attributes it sets and the exceptions it raises.  Exceptions are values of
  \<open>pyerror\<close>; \<open>LibraryError\<close> stands for the exception classes of the libraries
  (a library call may raise any \<open>pyerror\<close>).
\<close>

datatype pyerror =
  ValueError string
| AttributeError string
| AssertionError
| NotImplementedError
| LibraryError string

text \<open>Values the module only passes around: UFL forms, boundary conditions, function
  spaces, communicators, vectors and form compiler parameters.\<close>

datatype Form = Form nat
datatype DirichletBC = DirichletBC nat
datatype FunctionSpace = FunctionSpace nat
datatype Comm = Comm nat
datatype Vec = Vec nat

type_synonym bcs = "DirichletBC list option"
type_synonym parameters = "(string \<times> string) list"
type_synonym appctx = "(string \<times> parameters) list"

text \<open>A PETSc null space object; \<open>handle = 0\<close> is the null handle (no null space).\<close>

datatype NullSpace = NullSpace (handle: nat)

text \<open>The Python context of a matrix-free operator: the attributes
  \<^verbatim>\<open>on_diag\<close>, \<^verbatim>\<open>a\<close> and \<^verbatim>\<open>row_bcs\<close> that the module reads.\<close>

record matctx =
  on_diag :: bool
  ctx_a :: Form
  ctx_row_bcs :: bcs

text \<open>A PETSc matrix: \<^verbatim>\<open>P.type\<close>, \<^verbatim>\<open>P.getPythonContext()\<close> (\<open>None\<close> when the
  matrix has no Python context), \<^verbatim>\<open>P.getNullSpace()\<close>,
  \<^verbatim>\<open>P.getTransposeNullSpace()\<close>.\<close>

record Mat =
  mtype :: string
  pythoncontext :: "matctx option"
  nullspace :: NullSpace
  transposenullspace :: NullSpace

text \<open>A PETSc preconditioner object.  Matrices, preconditioners and DMs are referred to
  by handles (\<open>nat\<close>) into the stores of the world; handle \<open>0\<close> is the null handle.\<close>

record PC =
  ptype :: string
  operators :: "nat \<times> nat"
  dm :: nat
  optionsprefix :: string
  comm :: Comm
  tablevel :: nat

text \<open>A Firedrake \<^verbatim>\<open>Matrix\<close> as returned by \<^verbatim>\<open>allocate_matrix\<close>: the form and
  boundary conditions it was allocated for, its storage format, and the handle of its
  PETSc matrix (\<^verbatim>\<open>.petscmat\<close>).\<close>

record Matrix =
  M_a :: Form
  M_bcs :: bcs
  M_mat_type :: string
  petscmat :: nat

text \<open>The callable returned by \<^verbatim>\<open>create_assembly_callable\<close>: it remembers its
  arguments, among them the tensor it assembles into.\<close>

record assembly_callable =
  ac_a :: Form
  ac_tensor :: Matrix
  ac_bcs :: bcs
  ac_fcp :: "parameters option"
  ac_mat_type :: string

text \<open>Python is dynamically typed: the \<^verbatim>\<open>form\<close> hook receives a PETSc PC and two
  UFL arguments, in whatever order the caller passes them.

  Modelled from the spec: \<^verbatim>\<open>firedrake.ufl_expr\<close> (\<^verbatim>\<open>TestFunction\<close>,
  \<^verbatim>\<open>TrialFunction\<close>) is not under src/.  The spec calls their results the test
  and trial placeholders built on the function space; they are UFL arguments numbered 0
  and 1, and a UFL argument has no attribute \<^verbatim>\<open>getOperators\<close>.\<close>

datatype pyobj =
  PCobj nat
| Argument FunctionSpace nat

definition TestFunction :: "FunctionSpace \<Rightarrow> pyobj" where
  "TestFunction V = Argument V 0"

definition TrialFunction :: "FunctionSpace \<Rightarrow> pyobj" where
  "TrialFunction V = Argument V 1"

section \<open>The world: instance attributes, PETSc objects, the log of library calls\<close>

text \<open>The calls into PETSc and the Firedrake assembler that may fail or that have an
  effect the module does not see (assembly, solver set-up, solves).\<close>

datatype extcall =
  AllocateMatrix Form bcs "parameters option" string string
| CreateAssemblyCallable Form Matrix bcs "parameters option" string
| CallAssemble assembly_callable
| ForceEvaluation Matrix
| MatSetNullSpace nat NullSpace
| MatSetTransposeNullSpace nat NullSpace
| PCCreate Comm
| PCIncrementTabLevel nat nat nat
| PCSetOptionsPrefix nat string
| PCSetOperators nat nat nat
| PCSetFromOptions nat
| PCSetUp nat
| PCApply nat Vec Vec
| PCApplyTranspose nat Vec Vec

text \<open>The attributes \<^verbatim>\<open>self.P\<close>, \<^verbatim>\<open>self._assemble_P\<close> and \<^verbatim>\<open>self.pc\<close> of a
  preconditioner instance; \<open>None\<close> is an attribute that has not been set
  (\<^verbatim>\<open>view\<close> tests \<^verbatim>\<open>hasattr(self, "pc")\<close>).\<close>

record pcinstance =
  self_P :: "Matrix option"
  self_assemble_P :: "assembly_callable option"
  self_pc :: "nat option"

text \<open>
  Modelled from the spec: \<^verbatim>\<open>PCBase.get_appctx\<close> and
  \<^verbatim>\<open>firedrake.dmhooks.get_function_space\<close> are not under src/.  The spec gives their
  contract: \<^verbatim>\<open>get_appctx(context)\<close> returns the application context mapping (with an
  optional form-compiler-parameters entry) and \<^verbatim>\<open>get_function_space(context)\<close>
  returns the function-space handle.  They are the lookups \<open>appctxs\<close> (by PC) and
  \<open>function_spaces\<close> (by DM).

  \<open>options\<close> is the PETSc options database, \<open>next_handle\<close> the next unused object
  handle, and \<open>calls\<close> the library calls made so far, each with the exception the
  library raised (\<open>None\<close> when it returned).
\<close>

record world =
  self :: pcinstance
  mats :: "nat \<Rightarrow> Mat"
  pcs :: "nat \<Rightarrow> PC"
  function_spaces :: "nat \<Rightarrow> FunctionSpace"
  appctxs :: "nat \<Rightarrow> appctx"
  next_handle :: nat
  options :: "(string \<times> string) list"
  calls :: "(extcall \<times> pyerror option) list"

text \<open>The libraries decide which call fails, from the history of calls and the call.\<close>

type_synonym library = "(extcall \<times> pyerror option) list \<Rightarrow> extcall \<Rightarrow> pyerror option"

subsection \<open>Statements that may raise\<close>

type_synonym 'a py = "world \<Rightarrow> (pyerror + 'a) \<times> world"

definition ret :: "'a \<Rightarrow> 'a py" where
  "ret x = (\<lambda>s. (Inr x, s))"

definition pyraise :: "pyerror \<Rightarrow> 'a py" where
  "pyraise e = (\<lambda>s. (Inl e, s))"

definition pybind :: "'a py \<Rightarrow> ('a \<Rightarrow> 'b py) \<Rightarrow> 'b py" where
  "pybind m f = (\<lambda>s. case m s of (Inl e, s') \<Rightarrow> (Inl e, s') | (Inr x, s') \<Rightarrow> f x s')"

definition gets :: "(world \<Rightarrow> 'a) \<Rightarrow> 'a py" where
  "gets f = (\<lambda>s. (Inr (f s), s))"

definition reads :: "(world \<Rightarrow> pyerror + 'a) \<Rightarrow> 'a py" where
  "reads f = (\<lambda>s. (f s, s))"

definition modify :: "(world \<Rightarrow> world) \<Rightarrow> unit py" where
  "modify f = (\<lambda>s. (Inr (), f s))"

text \<open>A library call: it is logged with its outcome; when the library raises, the
  exception is the result and the effect does not happen.\<close>

definition libcall :: "library \<Rightarrow> extcall \<Rightarrow> (world \<Rightarrow> 'a \<times> world) \<Rightarrow> 'a py" where
  "libcall lib c eff = (\<lambda>s.
     case lib (calls s) c of
       Some e \<Rightarrow> (Inl e, s\<lparr>calls := calls s @ [(c, Some e)]\<rparr>)
     | None \<Rightarrow> (case eff (s\<lparr>calls := calls s @ [(c, None)]\<rparr>) of (x, s') \<Rightarrow> (Inr x, s')))"

subsection \<open>The library interface used by the module\<close>

text \<open>\<^verbatim>\<open>PETSc.Options().getString(name, default)\<close>.\<close>

definition getString :: "(string \<times> string) list \<Rightarrow> string \<Rightarrow> string \<Rightarrow> string" where
  "getString opts name dflt = (case map_of opts name of None \<Rightarrow> dflt | Some v \<Rightarrow> v)"

text \<open>\<^verbatim>\<open>allocate_matrix\<close> creates a PETSc matrix of the requested storage format, with
  no null space attached, and returns the Firedrake matrix that wraps it.\<close>

definition allocate_matrix ::
  "library \<Rightarrow> Form \<Rightarrow> bcs \<Rightarrow> parameters option \<Rightarrow> string \<Rightarrow> string \<Rightarrow> Matrix py" where
  "allocate_matrix lib a bcs fcp mat_type options_prefix =
     libcall lib (AllocateMatrix a bcs fcp mat_type options_prefix) (\<lambda>s.
       let h = next_handle s in
       (\<lparr>M_a = a, M_bcs = bcs, M_mat_type = mat_type, petscmat = h\<rparr>,
        s\<lparr>mats := (mats s)(h := \<lparr>mtype = mat_type, pythoncontext = None,
                                 nullspace = NullSpace 0, transposenullspace = NullSpace 0\<rparr>),
          next_handle := Suc h\<rparr>))"

definition create_assembly_callable ::
  "library \<Rightarrow> Form \<Rightarrow> Matrix \<Rightarrow> bcs \<Rightarrow> parameters option \<Rightarrow> string \<Rightarrow> assembly_callable py" where
  "create_assembly_callable lib a tensor bcs fcp mat_type =
     libcall lib (CreateAssemblyCallable a tensor bcs fcp mat_type) (\<lambda>s.
       (\<lparr>ac_a = a, ac_tensor = tensor, ac_bcs = bcs, ac_fcp = fcp, ac_mat_type = mat_type\<rparr>, s))"

definition call_assemble :: "library \<Rightarrow> assembly_callable \<Rightarrow> unit py" where
  "call_assemble lib cb = libcall lib (CallAssemble cb) (\<lambda>s. ((), s))"

definition force_evaluation :: "library \<Rightarrow> Matrix \<Rightarrow> unit py" where
  "force_evaluation lib M = libcall lib (ForceEvaluation M) (\<lambda>s. ((), s))"

definition setNullSpace :: "library \<Rightarrow> nat \<Rightarrow> NullSpace \<Rightarrow> unit py" where
  "setNullSpace lib m nsp =
     libcall lib (MatSetNullSpace m nsp) (\<lambda>s.
       ((), s\<lparr>mats := (mats s)(m := (mats s m)\<lparr>nullspace := nsp\<rparr>)\<rparr>))"

definition setTransposeNullSpace :: "library \<Rightarrow> nat \<Rightarrow> NullSpace \<Rightarrow> unit py" where
  "setTransposeNullSpace lib m nsp =
     libcall lib (MatSetTransposeNullSpace m nsp) (\<lambda>s.
       ((), s\<lparr>mats := (mats s)(m := (mats s m)\<lparr>transposenullspace := nsp\<rparr>)\<rparr>))"

text \<open>\<^verbatim>\<open>PETSc.PC().create(comm=...)\<close>: a new preconditioner object with nothing set.\<close>

definition PC_create :: "library \<Rightarrow> Comm \<Rightarrow> nat py" where
  "PC_create lib cm =
     libcall lib (PCCreate cm) (\<lambda>s.
       let h = next_handle s in
       (h, s\<lparr>pcs := (pcs s)(h := \<lparr>ptype = [], operators = (0, 0), dm = 0,
                                  optionsprefix = [], comm = cm, tablevel = 0\<rparr>),
             next_handle := Suc h\<rparr>))"

definition incrementTabLevel :: "library \<Rightarrow> nat \<Rightarrow> nat \<Rightarrow> nat \<Rightarrow> unit py" where
  "incrementTabLevel lib p tab parent =
     libcall lib (PCIncrementTabLevel p tab parent) (\<lambda>s.
       ((), s\<lparr>pcs := (pcs s)(p := (pcs s p)\<lparr>tablevel := tablevel (pcs s parent) + tab\<rparr>)\<rparr>))"

definition setOptionsPrefix :: "library \<Rightarrow> nat \<Rightarrow> string \<Rightarrow> unit py" where
  "setOptionsPrefix lib p prefix =
     libcall lib (PCSetOptionsPrefix p prefix) (\<lambda>s.
       ((), s\<lparr>pcs := (pcs s)(p := (pcs s p)\<lparr>optionsprefix := prefix\<rparr>)\<rparr>))"

definition setOperators :: "library \<Rightarrow> nat \<Rightarrow> nat \<Rightarrow> nat \<Rightarrow> unit py" where
  "setOperators lib p A P =
     libcall lib (PCSetOperators p A P) (\<lambda>s.
       ((), s\<lparr>pcs := (pcs s)(p := (pcs s p)\<lparr>operators := (A, P)\<rparr>)\<rparr>))"

definition setFromOptions :: "library \<Rightarrow> nat \<Rightarrow> unit py" where
  "setFromOptions lib p = libcall lib (PCSetFromOptions p) (\<lambda>s. ((), s))"

definition setUp :: "library \<Rightarrow> nat \<Rightarrow> unit py" where
  "setUp lib p = libcall lib (PCSetUp p) (\<lambda>s. ((), s))"

definition PC_apply :: "library \<Rightarrow> nat \<Rightarrow> Vec \<Rightarrow> Vec \<Rightarrow> unit py" where
  "PC_apply lib p x y = libcall lib (PCApply p x y) (\<lambda>s. ((), s))"

definition PC_applyTranspose :: "library \<Rightarrow> nat \<Rightarrow> Vec \<Rightarrow> Vec \<Rightarrow> unit py" where
  "PC_applyTranspose lib p x y = libcall lib (PCApplyTranspose p x y) (\<lambda>s. ((), s))"

text \<open>Attribute access: \<^verbatim>\<open>obj.getOperators()\<close> exists on a PC only;
  \<^verbatim>\<open>context.attr\<close> raises when the context is \<open>None\<close>; \<^verbatim>\<open>self.attr\<close> raises
  when the attribute has not been set.\<close>

fun getOperators :: "pyobj \<Rightarrow> world \<Rightarrow> pyerror + (nat \<times> nat)" where
  "getOperators (PCobj h) s = Inr (operators (pcs s h))"
| "getOperators (Argument V n) s = Inl (AttributeError ''getOperators'')"

definition getPythonContext :: "nat \<Rightarrow> world \<Rightarrow> matctx option" where
  "getPythonContext P s = pythoncontext (mats s P)"

fun ctx_attr :: "matctx option \<Rightarrow> string \<Rightarrow> (matctx \<Rightarrow> 'a) \<Rightarrow> pyerror + 'a" where
  "ctx_attr None name f = Inl (AttributeError name)"
| "ctx_attr (Some c) name f = Inr (f c)"

definition getattr_self :: "(pcinstance \<Rightarrow> 'a option) \<Rightarrow> string \<Rightarrow> 'a py" where
  "getattr_self attr name = (\<lambda>s.
     case attr (self s) of None \<Rightarrow> (Inl (AttributeError name), s) | Some v \<Rightarrow> (Inr v, s))"

section \<open>The classes \<^verbatim>\<open>AssembledPC\<close> and \<^verbatim>\<open>ExplicitSchurPC\<close>\<close>

text \<open>A class is its \<^verbatim>\<open>_prefix\<close> and its \<^verbatim>\<open>form\<close> method (a subclass overrides
  either); \<open>form_abstract\<close> records the decorator \<^verbatim>\<open>@abc.abstractmethod\<close>.  The
  hook reads the world and returns \<^verbatim>\<open>(a, bcs)\<close> or raises.\<close>

type_synonym form_hook = "pyobj \<Rightarrow> pyobj \<Rightarrow> pyobj \<Rightarrow> world \<Rightarrow> pyerror + (Form \<times> bcs)"

record pcclass =
  class_prefix :: string
  form :: form_hook
  form_abstract :: bool

text \<open>\<^verbatim>\<open>def form(self, test, trial, pc)\<close> of \<^verbatim>\<open>AssembledPC\<close>, parameters in the
  order of the source.\<close>

definition AssembledPC_form :: form_hook where
  "AssembledPC_form test trial pc s =
     (case getOperators pc s of
        Inl e \<Rightarrow> Inl e
      | Inr ops \<Rightarrow>
          let P = snd ops in
          if mtype (mats s P) \<noteq> ''python'' then Inl AssertionError
          else ctx_attr (getPythonContext P s) ''a''
                 (\<lambda>context. (ctx_a context, ctx_row_bcs context)))"

text \<open>\<^verbatim>\<open>def form(self, pc, test, trial)\<close> of \<^verbatim>\<open>ExplicitSchurPC\<close>.\<close>

definition ExplicitSchurPC_form :: form_hook where
  "ExplicitSchurPC_form pc test trial s = Inl NotImplementedError"

definition AssembledPC :: pcclass where
  "AssembledPC = \<lparr>class_prefix = ''assembled_'', form = AssembledPC_form, form_abstract = False\<rparr>"

definition ExplicitSchurPC :: pcclass where
  "ExplicitSchurPC = AssembledPC\<lparr>class_prefix := ''schur_'', form := ExplicitSchurPC_form,
                                 form_abstract := True\<rparr>"

text \<open>A subclass that overrides \<^verbatim>\<open>form\<close>.\<close>

definition override_form :: "pcclass \<Rightarrow> form_hook \<Rightarrow> pcclass" where
  "override_form cls f = cls\<lparr>form := f, form_abstract := False\<rparr>"

text \<open>\<^verbatim>\<open>AssembledPC.initialize(self, pc)\<close>, inherited by \<^verbatim>\<open>ExplicitSchurPC\<close>.
  The body is split at the blank lines and comments of the source; each part keeps the
  statements in the order of the source.

  Lines 35 to 40: only a diagonal block may be inverted.\<close>

definition check_diagonal_block :: "nat \<Rightarrow> unit py" where
  "check_diagonal_block P =
     pybind (gets (\<lambda>s. mtype (mats s P))) (\<lambda>Ptype.
     if Ptype = ''python'' then
       pybind (gets (getPythonContext P)) (\<lambda>ctx.
       pybind (reads (\<lambda>s. ctx_attr ctx ''on_diag'' on_diag)) (\<lambda>diag.
       if \<not> diag then pyraise (ValueError ''Only makes sense to invert diagonal block'')
       else ret ()))
     else ret ())"

text \<open>Lines 49 to 58: allocate \<^verbatim>\<open>self.P\<close>, create \<^verbatim>\<open>self._assemble_P\<close>, assemble.\<close>

definition assemble_operator ::
  "library \<Rightarrow> Form \<Rightarrow> bcs \<Rightarrow> parameters option \<Rightarrow> string \<Rightarrow> string \<Rightarrow> unit py" where
  "assemble_operator lib a bcs fcp mat_type options_prefix =
     pybind (allocate_matrix lib a bcs fcp mat_type options_prefix) (\<lambda>M.
     pybind (modify (\<lambda>s. s\<lparr>self := (self s)\<lparr>self_P := Some M\<rparr>\<rparr>)) (\<lambda>_.
     pybind (getattr_self self_P ''P'') (\<lambda>tensor.
     pybind (create_assembly_callable lib a tensor bcs fcp mat_type) (\<lambda>cb.
     pybind (modify (\<lambda>s. s\<lparr>self := (self s)\<lparr>self_assemble_P := Some cb\<rparr>\<rparr>)) (\<lambda>_.
     pybind (getattr_self self_assemble_P ''_assemble_P'') (\<lambda>assemble_P.
     pybind (call_assemble lib assemble_P) (\<lambda>_.
     pybind (getattr_self self_P ''P'') (\<lambda>selfP.
     force_evaluation lib selfP))))))))"

text \<open>Lines 60 to 65: transfer the null spaces of \<^verbatim>\<open>P\<close> to \<^verbatim>\<open>Pmat\<close>.\<close>

definition transfer_nullspace :: "library \<Rightarrow> nat \<Rightarrow> nat \<Rightarrow> unit py" where
  "transfer_nullspace lib P Pmat =
     pybind (gets (\<lambda>s. nullspace (mats s P))) (\<lambda>nsp.
     pybind (setNullSpace lib Pmat nsp) (\<lambda>_.
     pybind (gets (\<lambda>s. transposenullspace (mats s P))) (\<lambda>tnullsp.
     if handle tnullsp \<noteq> 0 then setTransposeNullSpace lib Pmat tnullsp else ret ())))"

text \<open>Lines 67 to 76: the inner PC that the user configures from the options.\<close>

definition create_inner_pc :: "library \<Rightarrow> nat \<Rightarrow> nat \<Rightarrow> string \<Rightarrow> unit py" where
  "create_inner_pc lib opc Pmat options_prefix =
     pybind (gets (\<lambda>s. comm (pcs s opc))) (\<lambda>cm.
     pybind (PC_create lib cm) (\<lambda>pc.
     pybind (incrementTabLevel lib pc 1 opc) (\<lambda>_.
     pybind (setOptionsPrefix lib pc options_prefix) (\<lambda>_.
     pybind (setOperators lib pc Pmat Pmat) (\<lambda>_.
     pybind (setFromOptions lib pc) (\<lambda>_.
     pybind (setUp lib pc) (\<lambda>_.
     modify (\<lambda>s. s\<lparr>self := (self s)\<lparr>self_pc := Some pc\<rparr>\<rparr>))))))))"

text \<open>The whole method.  The hook is called as \<^verbatim>\<open>self.form(pc, test, trial)\<close>.\<close>

definition initialize :: "pcclass \<Rightarrow> library \<Rightarrow> nat \<Rightarrow> unit py" where
  "initialize cls lib pc =
     pybind (reads (getOperators (PCobj pc))) (\<lambda>ops.
     let P = snd ops in
     pybind (gets (\<lambda>s. ptype (pcs s pc))) (\<lambda>ty.
     if ty \<noteq> ''python'' then pyraise (ValueError ''Expecting PC type python'') else
     let opc = pc in
     pybind (gets (\<lambda>s. appctxs s pc)) (\<lambda>appctx.
     let fcp = map_of appctx ''form_compiler_parameters'' in
     pybind (gets (\<lambda>s. function_spaces s (dm (pcs s pc)))) (\<lambda>V.
     let test = TestFunction V; trial = TrialFunction V in
     pybind (check_diagonal_block P) (\<lambda>_.
     pybind (gets (\<lambda>s. optionsprefix (pcs s pc))) (\<lambda>prefix.
     let options_prefix = prefix @ class_prefix cls in
     pybind (gets (\<lambda>s. getString (options s) (options_prefix @ ''mat_type'') ''aij'')) (\<lambda>mat_type.
     pybind (reads (form cls (PCobj pc) test trial)) (\<lambda>(a, bcs).
     pybind (assemble_operator lib a bcs fcp mat_type options_prefix) (\<lambda>_.
     pybind (getattr_self self_P ''P'') (\<lambda>selfP.
     let Pmat = petscmat selfP in
     pybind (transfer_nullspace lib P Pmat) (\<lambda>_.
     create_inner_pc lib opc Pmat options_prefix)))))))))))"


text \<open>\<^verbatim>\<open>AssembledPC.apply(self, pc, x, y)\<close> and
  \<^verbatim>\<open>AssembledPC.applyTranspose(self, pc, x, y)\<close>.\<close>

definition apply_pc :: "library \<Rightarrow> nat \<Rightarrow> Vec \<Rightarrow> Vec \<Rightarrow> unit py" where
  "apply_pc lib pc x y =
     pybind (getattr_self self_pc ''pc'') (\<lambda>ipc. PC_apply lib ipc x y)"

definition applyTranspose :: "library \<Rightarrow> nat \<Rightarrow> Vec \<Rightarrow> Vec \<Rightarrow> unit py" where
  "applyTranspose lib pc x y =
     pybind (getattr_self self_pc ''pc'') (\<lambda>ipc. PC_applyTranspose lib ipc x y)"

section \<open>Notions used to state the properties\<close>

text \<open>The preconditioning operator of \<open>pc\<close> is matrix-free and its Python context is
  not a diagonal block.\<close>

definition off_diag_block :: "world \<Rightarrow> nat \<Rightarrow> bool" where
  "off_diag_block s pc =
     (let P = snd (operators (pcs s pc)) in
      mtype (mats s P) = ''python'' \<and>
      (case pythoncontext (mats s P) of None \<Rightarrow> False | Some ctx \<Rightarrow> \<not> on_diag ctx))"

text \<open>The arguments \<^verbatim>\<open>initialize\<close> passes to the hook: \<^verbatim>\<open>self.form(pc, test, trial)\<close>.\<close>

definition hook_result :: "pcclass \<Rightarrow> nat \<Rightarrow> world \<Rightarrow> pyerror + (Form \<times> bcs)" where
  "hook_result cls pc s =
     form cls (PCobj pc) (TestFunction (function_spaces s (dm (pcs s pc))))
       (TrialFunction (function_spaces s (dm (pcs s pc)))) s"

text \<open>Both checks of \<^verbatim>\<open>initialize\<close> pass: the outer PC has type \<^verbatim>\<open>python\<close>, and
  a matrix-free preconditioning operator is a diagonal block.\<close>

definition passes_validation :: "world \<Rightarrow> nat \<Rightarrow> bool" where
  "passes_validation s pc =
     (let P = snd (operators (pcs s pc)) in
      ptype (pcs s pc) = ''python'' \<and>
      (if mtype (mats s P) = ''python''
       then (case pythoncontext (mats s P) of None \<Rightarrow> False | Some ctx \<Rightarrow> on_diag ctx)
       else True))"




subsection \<open>Example worlds\<close>

text \<open>A library in which no call fails, and one in which solver set-up fails.\<close>

definition no_failure :: library where
  "no_failure h c = None"


text \<open>An outer PC (handle 2) of type \<open>pty\<close> with options prefix \<^verbatim>\<open>fieldsplit_1_\<close>,
  whose preconditioning operator (handle 4) has type \<open>mty\<close>, a Python context with
  \<^verbatim>\<open>on_diag = od\<close>, a null space and a transpose null space; the instance has no
  attribute yet.\<close>

definition example_world :: "string \<Rightarrow> string \<Rightarrow> bool \<Rightarrow> world" where
  "example_world pty mty od =
     \<lparr>self = \<lparr>self_P = None, self_assemble_P = None, self_pc = None\<rparr>,
      mats = (\<lambda>h. \<lparr>mtype = [], pythoncontext = None, nullspace = NullSpace 0,
                    transposenullspace = NullSpace 0\<rparr>)
             (4 := \<lparr>mtype = mty,
                    pythoncontext = Some \<lparr>on_diag = od, ctx_a = Form 8,
                                           ctx_row_bcs = Some [DirichletBC 3]\<rparr>,
                    nullspace = NullSpace 5, transposenullspace = NullSpace 6\<rparr>),
      pcs = (\<lambda>h. \<lparr>ptype = [], operators = (0, 0), dm = 0, optionsprefix = [],
                   comm = Comm 0, tablevel = 0\<rparr>)
            (2 := \<lparr>ptype = pty, operators = (3, 4), dm = 7,
                   optionsprefix = ''fieldsplit_1_'', comm = Comm 2, tablevel = 2\<rparr>),
      function_spaces = (\<lambda>h. FunctionSpace 0)(7 := FunctionSpace 4),
      appctxs = (\<lambda>h. []),
      next_handle = 10,
      options = [(''fieldsplit_1_schur_mat_type'', ''baij'')],
      calls = []\<rparr>"

text \<open>A subclass hook: a fixed form with no boundary conditions.\<close>

definition example_form :: form_hook where
  "example_form pc test trial s = Inr (Form 9, None)"

section \<open>Laws of sequencing\<close>

text \<open>How each kind of statement runs in front of a continuation.\<close>

lemma pybind_ret: "pybind (ret x) f = f x"
  by (simp add: pybind_def ret_def)

lemma pybind_pyraise: "pybind (pyraise e) f = pyraise e"
  by (simp add: pybind_def pyraise_def)

lemma pybind_gets: "pybind (gets g) f s = f (g s) s"
  by (simp add: pybind_def gets_def)

lemma pybind_modify: "pybind (modify g) f s = f () (g s)"
  by (simp add: pybind_def modify_def)

lemma pybind_reads:
  "pybind (reads g) f s = (case g s of Inl e \<Rightarrow> (Inl e, s) | Inr x \<Rightarrow> f x s)"
  by (simp add: pybind_def reads_def split: sum.splits)

lemma pybind_getattr_self:
  "pybind (getattr_self attr name) f s =
     (case attr (self s) of None \<Rightarrow> (Inl (AttributeError name), s) | Some v \<Rightarrow> f v s)"
  by (simp add: pybind_def getattr_self_def split: option.splits)

lemma pybind_libcall:
  "pybind (libcall lib c eff) f s =
     (case lib (calls s) c of
        Some e \<Rightarrow> (Inl e, s\<lparr>calls := calls s @ [(c, Some e)]\<rparr>)
      | None \<Rightarrow> f (fst (eff (s\<lparr>calls := calls s @ [(c, None)]\<rparr>)))
                   (snd (eff (s\<lparr>calls := calls s @ [(c, None)]\<rparr>))))"
  by (simp add: pybind_def libcall_def split: option.splits prod.splits)

lemma libcall_apply:
  "libcall lib c eff s =
     (case lib (calls s) c of
        Some e \<Rightarrow> (Inl e, s\<lparr>calls := calls s @ [(c, Some e)]\<rparr>)
      | None \<Rightarrow> (Inr (fst (eff (s\<lparr>calls := calls s @ [(c, None)]\<rparr>))),
                   snd (eff (s\<lparr>calls := calls s @ [(c, None)]\<rparr>))))"
  by (simp add: libcall_def split: option.splits prod.splits)

lemma pybind_Inr:
  "pybind m f s = (Inr y, s') \<longleftrightarrow> (\<exists>x s1. m s = (Inr x, s1) \<and> f x s1 = (Inr y, s'))"
  by (cases "m s") (auto simp: pybind_def split: sum.splits)

lemmas py_simps = pybind_ret pybind_pyraise pybind_gets pybind_modify pybind_reads
  pybind_getattr_self pybind_libcall libcall_apply

lemmas lib_defs = allocate_matrix_def create_assembly_callable_def call_assemble_def
  force_evaluation_def setNullSpace_def setTransposeNullSpace_def PC_create_def
  incrementTabLevel_def setOptionsPrefix_def setOperators_def setFromOptions_def setUp_def
  PC_apply_def PC_applyTranspose_def

section \<open>Library failures are propagated\<close>




















section \<open>The steps of \<^verbatim>\<open>initialize\<close>\<close>

lemma check_diagonal_block_apply:
  "check_diagonal_block P s =
     (if mtype (mats s P) = ''python'' then
        (case pythoncontext (mats s P) of
           None \<Rightarrow> (Inl (AttributeError ''on_diag''), s)
         | Some ctx \<Rightarrow>
             if on_diag ctx then (Inr (), s)
             else (Inl (ValueError ''Only makes sense to invert diagonal block''), s))
      else (Inr (), s))"
  by (simp add: check_diagonal_block_def py_simps getPythonContext_def ret_def pyraise_def
      split: option.splits)

lemma pybind_check_diagonal_block:
  "pybind (check_diagonal_block P) f s =
     (if mtype (mats s P) = ''python'' then
        (case pythoncontext (mats s P) of
           None \<Rightarrow> (Inl (AttributeError ''on_diag''), s)
         | Some ctx \<Rightarrow>
             if on_diag ctx then f () s
             else (Inl (ValueError ''Only makes sense to invert diagonal block''), s))
      else f () s)"
  by (simp add: pybind_def check_diagonal_block_apply split: option.splits)

lemma initialize_wrong_kind:
  "ptype (pcs s pc) \<noteq> ''python'' \<Longrightarrow>
   initialize cls lib pc s = (Inl (ValueError ''Expecting PC type python''), s)"
  by (simp add: initialize_def py_simps pyraise_def Let_def)

lemma initialize_off_diag:
  "ptype (pcs s pc) = ''python'' \<Longrightarrow> off_diag_block s pc \<Longrightarrow>
   initialize cls lib pc s = (Inl (ValueError ''Only makes sense to invert diagonal block''), s)"
  by (simp add: initialize_def py_simps pybind_check_diagonal_block off_diag_block_def Let_def
      split: option.splits)

lemma initialize_no_context:
  "ptype (pcs s pc) = ''python'' \<Longrightarrow> mtype (mats s (snd (operators (pcs s pc)))) = ''python'' \<Longrightarrow>
   pythoncontext (mats s (snd (operators (pcs s pc)))) = None \<Longrightarrow>
   initialize cls lib pc s = (Inl (AttributeError ''on_diag''), s)"
  by (simp add: initialize_def py_simps pybind_check_diagonal_block Let_def)

text \<open>When the validation passes, the rest of initialize is the hook followed by the three
  phases.\<close>

lemma initialize_validated:
  assumes "ptype (pcs s pc) = ''python''" 
    and "mtype (mats s (snd (operators (pcs s pc)))) = ''python'' \<Longrightarrow> 
           \<exists>ctx. pythoncontext (mats s (snd (operators (pcs s pc)))) = Some ctx \<and> on_diag ctx"
  shows "initialize cls lib pc s =
     (case hook_result cls pc s of
        Inl e \<Rightarrow> (Inl e, s)
      | Inr (a, bcs) \<Rightarrow>
          pybind (assemble_operator lib a bcs (map_of (appctxs s pc) ''form_compiler_parameters'')
                    (getString (options s) (optionsprefix (pcs s pc) @ class_prefix cls @ ''mat_type'') ''aij'')
                    (optionsprefix (pcs s pc) @ class_prefix cls)) (\<lambda>_.
          pybind (getattr_self self_P ''P'') (\<lambda>selfP.
          pybind (transfer_nullspace lib (snd (operators (pcs s pc))) (petscmat selfP)) (\<lambda>_.
          create_inner_pc lib pc (petscmat selfP) (optionsprefix (pcs s pc) @ class_prefix cls)))) s)"
  using assms
  by (auto simp add: initialize_def py_simps pybind_check_diagonal_block Let_def hook_result_def
      split: option.splits sum.splits)

lemma initialize_Inr_validated:
  assumes "fst (initialize cls lib pc s) = Inr u"
  shows "ptype (pcs s pc) = ''python'' \<and> \<not> off_diag_block s pc \<and>
     (mtype (mats s (snd (operators (pcs s pc)))) = ''python'' \<longrightarrow> 
           (\<exists>ctx. pythoncontext (mats s (snd (operators (pcs s pc)))) = Some ctx \<and> on_diag ctx))"
proof -
  have 1: "ptype (pcs s pc) = ''python''"
    using assms initialize_wrong_kind[of s pc cls lib] by (cases "ptype (pcs s pc) = ''python''") auto
  have 2: "\<not> off_diag_block s pc"
    using assms 1 initialize_off_diag[of s pc cls lib] by auto
  have 3: "pythoncontext (mats s (snd (operators (pcs s pc)))) \<noteq> None" 
    if "mtype (mats s (snd (operators (pcs s pc)))) = ''python''"
    using assms 1 that initialize_no_context[of s pc cls lib]
    by (cases "pythoncontext (mats s (snd (operators (pcs s pc))))") auto
  from 1 2 3 show ?thesis by (auto simp: off_diag_block_def Let_def split: option.splits)
qed

lemma assemble_operator_Inr:
  assumes "assemble_operator lib a bcs fcp mat_type options_prefix s = (Inr u, s')"
  shows "s' = s\<lparr>self := (self s)\<lparr>self_P := Some \<lparr>M_a = a, M_bcs = bcs, M_mat_type = mat_type, petscmat = next_handle s\<rparr>,
                    self_assemble_P := Some \<lparr>ac_a = a, ac_tensor = \<lparr>M_a = a, M_bcs = bcs, M_mat_type = mat_type, petscmat = next_handle s\<rparr>,
                           ac_bcs = bcs, ac_fcp = fcp, ac_mat_type = mat_type\<rparr>\<rparr>,
       mats := (mats s)(next_handle s := \<lparr>mtype = mat_type, pythoncontext = None,
                                 nullspace = NullSpace 0, transposenullspace = NullSpace 0\<rparr>),
       next_handle := Suc (next_handle s),
       calls := calls s @ [(AllocateMatrix a bcs fcp mat_type options_prefix, None),
             (CreateAssemblyCallable a \<lparr>M_a = a, M_bcs = bcs, M_mat_type = mat_type, petscmat = next_handle s\<rparr> bcs fcp mat_type, None),
             (CallAssemble \<lparr>ac_a = a, ac_tensor = \<lparr>M_a = a, M_bcs = bcs, M_mat_type = mat_type, petscmat = next_handle s\<rparr>,
                           ac_bcs = bcs, ac_fcp = fcp, ac_mat_type = mat_type\<rparr>, None),
             (ForceEvaluation \<lparr>M_a = a, M_bcs = bcs, M_mat_type = mat_type, petscmat = next_handle s\<rparr>, None)]\<rparr>"
  using assms
  by (cases s) (auto simp: assemble_operator_def py_simps lib_defs Let_def split: option.splits)

lemma transfer_nullspace_Inr:
  assumes "transfer_nullspace lib P Pmat s = (Inr u, s')"
  shows "self s' = self s \<and> pcs s' = pcs s \<and> next_handle s' = next_handle s \<and>
     options s' = options s \<and>
     calls s' = calls s @ (MatSetNullSpace Pmat (nullspace (mats s P)), None) #
        (if handle (transposenullspace (mats s P)) \<noteq> 0
         then [(MatSetTransposeNullSpace Pmat (transposenullspace (mats s P)), None)] else []) \<and>
     mats s' = (mats s)(Pmat := (mats s Pmat)\<lparr>nullspace := nullspace (mats s P),
        transposenullspace := (if handle (transposenullspace (mats s P)) \<noteq> 0 then transposenullspace (mats s P)
             else transposenullspace (mats s Pmat))\<rparr>)"
  using assms
  by (cases s) (auto simp: transfer_nullspace_def py_simps lib_defs ret_def split: option.splits if_splits)

lemma create_inner_pc_Inr:
  assumes "create_inner_pc lib opc Pmat options_prefix s = (Inr u, s')"
  shows "self s' = (self s)\<lparr>self_pc := Some (next_handle s)\<rparr> \<and> mats s' = mats s \<and>
     options s' = options s \<and> next_handle s' = Suc (next_handle s) \<and>
     (\<forall>h. h \<noteq> next_handle s \<longrightarrow> pcs s' h = pcs s h) \<and>
     optionsprefix (pcs s' (next_handle s)) = options_prefix \<and>
     operators (pcs s' (next_handle s)) = (Pmat, Pmat) \<and>
     comm (pcs s' (next_handle s)) = comm (pcs s opc) \<and>
     calls s' = calls s @ [(PCCreate (comm (pcs s opc)), None),
        (PCIncrementTabLevel (next_handle s) 1 opc, None),
        (PCSetOptionsPrefix (next_handle s) options_prefix, None),
        (PCSetOperators (next_handle s) Pmat Pmat, None),
        (PCSetFromOptions (next_handle s), None),
        (PCSetUp (next_handle s), None)]"
  using assms
  by (cases s) (auto simp: create_inner_pc_def py_simps lib_defs modify_def Let_def split: option.splits)

text \<open>What a successful run of \<^verbatim>\<open>initialize\<close> leaves behind.\<close>

lemma initialize_Inr:
  assumes ok: "fst (initialize cls lib pc s) = Inr u"
  shows "\<exists>a bcs. hook_result cls pc s = Inr (a, bcs) \<and>
    (let s' = snd (initialize cls lib pc s);
         P = snd (operators (pcs s pc));
         h = next_handle s;
         fcp = map_of (appctxs s pc) ''form_compiler_parameters'';
         options_prefix = optionsprefix (pcs s pc) @ class_prefix cls;
         mat_type = getString (options s) (options_prefix @ ''mat_type'') ''aij'';
         M = \<lparr>M_a = a, M_bcs = bcs, M_mat_type = mat_type, petscmat = h\<rparr>;
         cb = \<lparr>ac_a = a, ac_tensor = M, ac_bcs = bcs, ac_fcp = fcp, ac_mat_type = mat_type\<rparr>;
         m1 = (mats s)(h := \<lparr>mtype = mat_type, pythoncontext = None,
                               nullspace = NullSpace 0, transposenullspace = NullSpace 0\<rparr>)
     in self s' = \<lparr>self_P = Some M, self_assemble_P = Some cb, self_pc = Some (Suc h)\<rparr> \<and>
        mats s' = m1(h := (m1 h)\<lparr>nullspace := nullspace (m1 P),
                     transposenullspace :=
                       (if handle (transposenullspace (m1 P)) \<noteq> 0
                        then transposenullspace (m1 P) else transposenullspace (m1 h))\<rparr>) \<and>
        (\<forall>k. k \<noteq> Suc h \<longrightarrow> pcs s' k = pcs s k) \<and>
        optionsprefix (pcs s' (Suc h)) = options_prefix \<and>
        operators (pcs s' (Suc h)) = (h, h) \<and>
        comm (pcs s' (Suc h)) = comm (pcs s pc) \<and>
        next_handle s' = Suc (Suc h) \<and>
        options s' = options s \<and>
        calls s' = calls s @
          [(AllocateMatrix a bcs fcp mat_type options_prefix, None),
           (CreateAssemblyCallable a M bcs fcp mat_type, None),
           (CallAssemble cb, None),
           (ForceEvaluation M, None),
           (MatSetNullSpace h (nullspace (m1 P)), None)] @
          (if handle (transposenullspace (m1 P)) \<noteq> 0
           then [(MatSetTransposeNullSpace h (transposenullspace (m1 P)), None)] else []) @
          [(PCCreate (comm (pcs s pc)), None),
           (PCIncrementTabLevel (Suc h) 1 pc, None),
           (PCSetOptionsPrefix (Suc h) options_prefix, None),
           (PCSetOperators (Suc h) h h, None),
           (PCSetFromOptions (Suc h), None),
           (PCSetUp (Suc h), None)])"
proof -
  define s' where "s' = snd (initialize cls lib pc s)"
  have run: "initialize cls lib pc s = (Inr u, s')"
    using ok by (simp add: s'_def prod_eq_iff)
  note v = initialize_Inr_validated[OF ok]
  from v have unfold: "initialize cls lib pc s =
     (case hook_result cls pc s of
        Inl e \<Rightarrow> (Inl e, s)
      | Inr (a, bcs) \<Rightarrow>
          pybind (assemble_operator lib a bcs (map_of (appctxs s pc) ''form_compiler_parameters'')
                    (getString (options s) (optionsprefix (pcs s pc) @ class_prefix cls @ ''mat_type'') ''aij'')
                    (optionsprefix (pcs s pc) @ class_prefix cls)) (\<lambda>_.
          pybind (getattr_self self_P ''P'') (\<lambda>selfP.
          pybind (transfer_nullspace lib (snd (operators (pcs s pc))) (petscmat selfP)) (\<lambda>_.
          create_inner_pc lib pc (petscmat selfP) (optionsprefix (pcs s pc) @ class_prefix cls)))) s)"
    by (intro initialize_validated) auto
  from run unfold obtain a bcs where hook: "hook_result cls pc s = Inr (a, bcs)"
    by (cases "hook_result cls pc s") auto
  define fcp where "fcp = map_of (appctxs s pc) ''form_compiler_parameters''"
  define options_prefix where "options_prefix = optionsprefix (pcs s pc) @ class_prefix cls"
  define mat_type where "mat_type = getString (options s) (options_prefix @ ''mat_type'') ''aij''"
  from run unfold hook obtain s1 s2 selfP where
    1: "assemble_operator lib a bcs fcp mat_type options_prefix s = (Inr (), s1)" and
    g: "self_P (self s1) = Some selfP" and
    2: "transfer_nullspace lib (snd (operators (pcs s pc))) (petscmat selfP) s1 = (Inr (), s2)" and
    3: "create_inner_pc lib pc (petscmat selfP) options_prefix s2 = (Inr u, s')"
    by (auto simp: pybind_Inr getattr_self_def fcp_def options_prefix_def mat_type_def
        split: option.splits)
  note a1 = assemble_operator_Inr[OF 1]
  from g a1 have sp: "selfP = \<lparr>M_a = a, M_bcs = bcs, M_mat_type = mat_type, petscmat = next_handle s\<rparr>"
    by simp
  note a2 = transfer_nullspace_Inr[OF 2]
  note a3 = create_inner_pc_Inr[OF 3]
  show ?thesis
    apply (rule exI[of _ a], rule exI[of _ bcs])
    unfolding Let_def s'_def[symmetric] fcp_def[symmetric] options_prefix_def[symmetric] mat_type_def[symmetric]
    using hook a1 a2 a3 sp
    apply simp
    done
qed

text \<open>After the checks, \<^verbatim>\<open>initialize\<close> is the hook followed by the three steps.\<close>

lemma initialize_passes_validation:
  assumes "passes_validation s pc"
  shows "initialize cls lib pc s =
     (case hook_result cls pc s of
        Inl e \<Rightarrow> (Inl e, s)
      | Inr (a, bcs) \<Rightarrow>
          pybind (assemble_operator lib a bcs (map_of (appctxs s pc) ''form_compiler_parameters'')
                    (getString (options s) (optionsprefix (pcs s pc) @ class_prefix cls @ ''mat_type'') ''aij'')
                    (optionsprefix (pcs s pc) @ class_prefix cls)) (\<lambda>_.
          pybind (getattr_self self_P ''P'') (\<lambda>selfP.
          pybind (transfer_nullspace lib (snd (operators (pcs s pc))) (petscmat selfP)) (\<lambda>_.
          create_inner_pc lib pc (petscmat selfP) (optionsprefix (pcs s pc) @ class_prefix cls)))) s)"
  using assms
  by (intro initialize_validated) (auto simp: passes_validation_def Let_def split: option.splits)

lemma initialize_hook_raises:
  "passes_validation s pc \<Longrightarrow> hook_result cls pc s = Inl e \<Longrightarrow>
   initialize cls lib pc s = (Inl e, s)"
  by (simp add: initialize_passes_validation)

lemma AssembledPC_hook_result:
  "hook_result AssembledPC pc s = Inl (AttributeError ''getOperators'')"
  by (simp add: hook_result_def AssembledPC_def AssembledPC_form_def TrialFunction_def)

lemma ExplicitSchurPC_hook_result:
  "hook_result ExplicitSchurPC pc s = Inl NotImplementedError"
  by (simp add: hook_result_def ExplicitSchurPC_def ExplicitSchurPC_form_def)

lemma pybind_assoc: "pybind (pybind m f) g = pybind m (\<lambda>x. pybind (f x) g)"
  by (auto simp: pybind_def fun_eq_iff split: prod.splits sum.splits)

section \<open>Runs on the example worlds\<close>

lemma ret_apply: "ret x s = (Inr x, s)"
  by (simp add: ret_def)

lemma pyraise_apply: "pyraise e s = (Inl e, s)"
  by (simp add: pyraise_def)

lemma modify_apply: "modify g s = (Inr (), g s)"
  by (simp add: modify_def)

lemmas run_simps = initialize_def check_diagonal_block_def assemble_operator_def
  transfer_nullspace_def create_inner_pc_def pybind_assoc py_simps lib_defs
  getPythonContext_def Let_def ret_apply pyraise_apply modify_apply

lemma example_passes_validation:
  "passes_validation (example_world ''python'' ''python'' True) 2"
  "passes_validation (example_world ''python'' ''aij'' True) 2"
  by (simp_all add: passes_validation_def example_world_def)

lemma example_initialize_ok:
  "fst (initialize (override_form ExplicitSchurPC example_form) no_failure 2
          (example_world ''python'' ''python'' True)) = Inr ()"
  by (simp add: run_simps override_form_def example_form_def ExplicitSchurPC_def
      AssembledPC_def no_failure_def example_world_def)


lemma initialize_InrE:
  assumes "fst (initialize cls lib pc s) = Inr u"
  obtains a bcs M cb cs where
    "hook_result cls pc s = Inr (a, bcs)"
    "M_a M = a" "M_bcs M = bcs"
    "M_mat_type M = getString (options s)
            (optionsprefix (pcs s pc) @ class_prefix cls @ ''mat_type'') ''aij''"
    "petscmat M = next_handle s"
    "ac_a cb = a" "ac_tensor cb = M" "ac_bcs cb = bcs"
    "ac_fcp cb = map_of (appctxs s pc) ''form_compiler_parameters''"
    "ac_mat_type cb = M_mat_type M"
    "self (snd (initialize cls lib pc s)) =
       \<lparr>self_P = Some M, self_assemble_P = Some cb, self_pc = Some (Suc (next_handle s))\<rparr>"
    "\<And>k. k \<noteq> next_handle s \<Longrightarrow> mats (snd (initialize cls lib pc s)) k = mats s k"
    "mtype (mats (snd (initialize cls lib pc s)) (next_handle s)) = M_mat_type M"
    "snd (operators (pcs s pc)) \<noteq> next_handle s \<Longrightarrow>
       nullspace (mats (snd (initialize cls lib pc s)) (next_handle s)) =
         nullspace (mats s (snd (operators (pcs s pc))))"
    "snd (operators (pcs s pc)) \<noteq> next_handle s \<Longrightarrow>
       handle (transposenullspace (mats s (snd (operators (pcs s pc))))) \<noteq> 0 \<Longrightarrow>
       transposenullspace (mats (snd (initialize cls lib pc s)) (next_handle s)) =
         transposenullspace (mats s (snd (operators (pcs s pc))))"
    "\<And>k. k \<noteq> Suc (next_handle s) \<Longrightarrow> pcs (snd (initialize cls lib pc s)) k = pcs s k"
    "optionsprefix (pcs (snd (initialize cls lib pc s)) (Suc (next_handle s))) =
       optionsprefix (pcs s pc) @ class_prefix cls"
    "operators (pcs (snd (initialize cls lib pc s)) (Suc (next_handle s))) =
       (next_handle s, next_handle s)"
    "next_handle (snd (initialize cls lib pc s)) = Suc (Suc (next_handle s))"
    "options (snd (initialize cls lib pc s)) = options s"
    "calls (snd (initialize cls lib pc s)) =
       cs @ [(PCSetOptionsPrefix (Suc (next_handle s))
                (optionsprefix (pcs s pc) @ class_prefix cls), None),
             (PCSetOperators (Suc (next_handle s)) (next_handle s) (next_handle s), None),
             (PCSetFromOptions (Suc (next_handle s)), None),
             (PCSetUp (Suc (next_handle s)), None)]"
proof -
  from initialize_Inr[OF assms] obtain a bcs where
    h: "hook_result cls pc s = Inr (a, bcs)" and
    r: "(let s' = snd (initialize cls lib pc s);
         P = snd (operators (pcs s pc));
         h = next_handle s;
         fcp = map_of (appctxs s pc) ''form_compiler_parameters'';
         options_prefix = optionsprefix (pcs s pc) @ class_prefix cls;
         mat_type = getString (options s) (options_prefix @ ''mat_type'') ''aij'';
         M = \<lparr>M_a = a, M_bcs = bcs, M_mat_type = mat_type, petscmat = h\<rparr>;
         cb = \<lparr>ac_a = a, ac_tensor = M, ac_bcs = bcs, ac_fcp = fcp, ac_mat_type = mat_type\<rparr>;
         m1 = (mats s)(h := \<lparr>mtype = mat_type, pythoncontext = None,
                               nullspace = NullSpace 0, transposenullspace = NullSpace 0\<rparr>)
     in self s' = \<lparr>self_P = Some M, self_assemble_P = Some cb, self_pc = Some (Suc h)\<rparr> \<and>
        mats s' = m1(h := (m1 h)\<lparr>nullspace := nullspace (m1 P),
                     transposenullspace :=
                       (if handle (transposenullspace (m1 P)) \<noteq> 0
                        then transposenullspace (m1 P) else transposenullspace (m1 h))\<rparr>) \<and>
        (\<forall>k. k \<noteq> Suc h \<longrightarrow> pcs s' k = pcs s k) \<and>
        optionsprefix (pcs s' (Suc h)) = options_prefix \<and>
        operators (pcs s' (Suc h)) = (h, h) \<and>
        comm (pcs s' (Suc h)) = comm (pcs s pc) \<and>
        next_handle s' = Suc (Suc h) \<and>
        options s' = options s \<and>
        calls s' = calls s @
          [(AllocateMatrix a bcs fcp mat_type options_prefix, None),
           (CreateAssemblyCallable a M bcs fcp mat_type, None),
           (CallAssemble cb, None),
           (ForceEvaluation M, None),
           (MatSetNullSpace h (nullspace (m1 P)), None)] @
          (if handle (transposenullspace (m1 P)) \<noteq> 0
           then [(MatSetTransposeNullSpace h (transposenullspace (m1 P)), None)] else []) @
          [(PCCreate (comm (pcs s pc)), None),
           (PCIncrementTabLevel (Suc h) 1 pc, None),
           (PCSetOptionsPrefix (Suc h) options_prefix, None),
           (PCSetOperators (Suc h) h h, None),
           (PCSetFromOptions (Suc h), None),
           (PCSetUp (Suc h), None)])"
    by blast
  define M where "M = \<lparr>M_a = a, M_bcs = bcs,
          M_mat_type = getString (options s)
            (optionsprefix (pcs s pc) @ class_prefix cls @ ''mat_type'') ''aij'',
          petscmat = next_handle s\<rparr>"
  define cb where "cb = \<lparr>ac_a = a, ac_tensor = M, ac_bcs = bcs,
           ac_fcp = map_of (appctxs s pc) ''form_compiler_parameters'',
           ac_mat_type = M_mat_type M\<rparr>"
  show thesis
    apply (rule that[of a bcs M cb, OF h])
    using r
    apply (simp_all add: Let_def M_def cb_def)
    done
qed

text \<open>The form and boundary conditions that are assembled are the ones the hook returned.\<close>

lemma hook_supplies_form_and_bcs:
  assumes "fst (initialize cls lib pc s) = Inr u"
  shows "\<exists>a bcs M cb. hook_result cls pc s = Inr (a, bcs) \<and>
     self_P (self (snd (initialize cls lib pc s))) = Some M \<and>
     self_assemble_P (self (snd (initialize cls lib pc s))) = Some cb \<and>
     M_a M = a \<and> M_bcs M = bcs \<and> ac_a cb = a \<and> ac_bcs cb = bcs \<and> ac_tensor cb = M"
proof -
  from assms obtain a bcs M cb where
    "hook_result cls pc s = Inr (a, bcs)"
    "self_P (self (snd (initialize cls lib pc s))) = Some M"
    "self_assemble_P (self (snd (initialize cls lib pc s))) = Some cb"
    "M_a M = a" "M_bcs M = bcs" "ac_a cb = a" "ac_bcs cb = bcs" "ac_tensor cb = M"
    by (elim initialize_InrE) simp
  then show ?thesis
    by (intro exI[of _ a] exI[of _ bcs] exI[of _ M] exI[of _ cb]) simp
qed

text \<open>The default hook of \<^verbatim>\<open>AssembledPC\<close>, called as \<^verbatim>\<open>initialize\<close> calls it, looks up
  \<^verbatim>\<open>getOperators\<close> on the trial function.\<close>

lemma default_form_raises_AttributeError:
  "passes_validation s pc \<Longrightarrow>
   initialize AssembledPC lib pc s = (Inl (AttributeError ''getOperators''), s)"
  by (simp add: initialize_hook_raises AssembledPC_hook_result)


lemma apply_pc_apply:
  assumes "self_pc (self s) = Some ipc"
  shows "apply_pc lib pc x y s = PC_apply lib ipc x y s"
    and "applyTranspose lib pc x y s = PC_applyTranspose lib ipc x y s"
  using assms by (simp_all add: apply_pc_def applyTranspose_def py_simps)

text \<open>Facts about the example world, and a run in which solver set-up fails.\<close>

lemma example_operator:
  "operators (pcs (example_world pty mty od) 2) = (3, 4)"
  "snd (operators (pcs (example_world pty mty od) 2)) = 4"
  "mats (example_world pty mty od) 4 =
     \<lparr>mtype = mty, pythoncontext = Some \<lparr>on_diag = od, ctx_a = Form 8,
         ctx_row_bcs = Some [DirichletBC 3]\<rparr>,
       nullspace = NullSpace 5, transposenullspace = NullSpace 6\<rparr>"
  "next_handle (example_world pty mty od) = 10"
  "optionsprefix (pcs (example_world pty mty od) 2) = ''fieldsplit_1_''"
  "options (example_world pty mty od) = [(''fieldsplit_1_schur_mat_type'', ''baij'')]"
  "function_spaces (example_world pty mty od) (dm (pcs (example_world pty mty od) 2)) = FunctionSpace 4"
  by (simp_all add: example_world_def)







section \<open>The claims\<close>

text \<open>
  C1.  When the preconditioning operator \<open>P\<close> of the outer PC is matrix-free (type
  \<^verbatim>\<open>python\<close>) and its Python context is not a diagonal block, \<^verbatim>\<open>initialize\<close> raises
  a \<open>ValueError\<close> and leaves the world as it was: no matrix is allocated or assembled,
  no inner PC is created, no library call is made.  Consequently, whenever a run of
  \<^verbatim>\<open>initialize\<close> makes a library call, sets an attribute or touches a PETSc object, a
  matrix-free \<open>P\<close> has a Python context that is a diagonal block.
\<close>

theorem initialize_rejects_off_diagonal_block:
  "(off_diag_block s pc \<longrightarrow> (\<exists>msg. initialize cls lib pc s = (Inl (ValueError msg), s))) \<and>
   (calls (snd (initialize cls lib pc s)) \<noteq> calls s \<or>
    self (snd (initialize cls lib pc s)) \<noteq> self s \<or>
    mats (snd (initialize cls lib pc s)) \<noteq> mats s \<or>
    pcs (snd (initialize cls lib pc s)) \<noteq> pcs s \<longrightarrow>
    mtype (mats s (snd (operators (pcs s pc)))) = ''python'' \<longrightarrow>
    (\<exists>ctx. pythoncontext (mats s (snd (operators (pcs s pc)))) = Some ctx \<and> on_diag ctx))"
proof (intro conjI impI)
  assume od: "off_diag_block s pc"
  show "\<exists>msg. initialize cls lib pc s = (Inl (ValueError msg), s)"
  proof (cases "ptype (pcs s pc) = ''python''")
    case True
    with od show ?thesis by (simp add: initialize_off_diag)
  next
    case False
    then show ?thesis by (simp add: initialize_wrong_kind)
  qed
next
  let ?P = "snd (operators (pcs s pc))"
  let ?s' = "snd (initialize cls lib pc s)"
  assume ch: "calls ?s' \<noteq> calls s \<or> self ?s' \<noteq> self s \<or> mats ?s' \<noteq> mats s \<or> pcs ?s' \<noteq> pcs s"
    and mf: "mtype (mats s ?P) = ''python''"
  from ch have ne: "?s' \<noteq> s" by auto
  have ty: "ptype (pcs s pc) = ''python''"
    using ne initialize_wrong_kind[of s pc cls lib] by (cases "ptype (pcs s pc) = ''python''") auto
  show "\<exists>ctx. pythoncontext (mats s ?P) = Some ctx \<and> on_diag ctx"
  proof (cases "pythoncontext (mats s ?P)")
    case None
    with ty mf ne initialize_no_context[of s pc cls lib] show ?thesis by auto
  next
    case (Some ctx)
    have "\<not> off_diag_block s pc"
      using ne ty initialize_off_diag[of s pc cls lib] by auto
    with Some mf show ?thesis by (simp add: off_diag_block_def)
  qed
qed

theorem initialize_rejects_off_diagonal_block_witness:
  "off_diag_block (example_world ''python'' ''python'' False) 2 \<and>
   (\<exists>msg. initialize AssembledPC no_failure 2 (example_world ''python'' ''python'' False) =
      (Inl (ValueError msg), example_world ''python'' ''python'' False))"
proof -
  have c: "off_diag_block (example_world ''python'' ''python'' False) 2"
    by (simp add: off_diag_block_def example_world_def)
  with initialize_rejects_off_diagonal_block
         [of "example_world ''python'' ''python'' False" 2 AssembledPC no_failure]
  show ?thesis by blast
qed

text \<open>
  C2.  The form and boundary conditions come from the hook (lemma
  \<open>hook_supplies_form_and_bcs\<close>), but the default hook of \<^verbatim>\<open>AssembledPC\<close> does not
  return \<^verbatim>\<open>(context.a, context.row_bcs)\<close> when \<^verbatim>\<open>initialize\<close> invokes it:
  \<^verbatim>\<open>initialize\<close> calls \<^verbatim>\<open>self.form(pc, test, trial)\<close>, the hook is declared
  \<^verbatim>\<open>form(self, test, trial, pc)\<close>, so its \<^verbatim>\<open>pc\<close> is the trial function and
  \<^verbatim>\<open>pc.getOperators()\<close> raises \<open>AttributeError\<close>.  On the example world (outer PC of
  type \<^verbatim>\<open>python\<close>, matrix-free diagonal block) \<^verbatim>\<open>initialize\<close> of \<^verbatim>\<open>AssembledPC\<close>
  fails so, although the hook called in its declared order returns the pair of the
  context; with the default hook no call of \<^verbatim>\<open>initialize\<close> succeeds.
\<close>

theorem default_form_hook_receives_trial_function:
  "initialize AssembledPC no_failure 2 (example_world ''python'' ''python'' True) =
     (Inl (AttributeError ''getOperators''), example_world ''python'' ''python'' True) \<and>
   AssembledPC_form (TestFunction (FunctionSpace 4)) (TrialFunction (FunctionSpace 4)) (PCobj 2)
     (example_world ''python'' ''python'' True) = Inr (Form 8, Some [DirichletBC 3]) \<and>
   (\<forall>lib pc s. fst (initialize AssembledPC lib pc s) \<noteq> Inr ())"
proof (intro conjI allI)
  show "initialize AssembledPC no_failure 2 (example_world ''python'' ''python'' True) =
     (Inl (AttributeError ''getOperators''), example_world ''python'' ''python'' True)"
    by (simp add: default_form_raises_AttributeError example_passes_validation)
  show "AssembledPC_form (TestFunction (FunctionSpace 4)) (TrialFunction (FunctionSpace 4))
     (PCobj 2) (example_world ''python'' ''python'' True) = Inr (Form 8, Some [DirichletBC 3])"
    by (simp add: AssembledPC_form_def getPythonContext_def example_operator)
  show "fst (initialize AssembledPC lib pc s) \<noteq> Inr ()" for lib pc s
  proof
    assume "fst (initialize AssembledPC lib pc s) = Inr ()"
    then obtain a bcs where "hook_result AssembledPC pc s = Inr (a, bcs)"
      by (elim initialize_InrE)
    then show False by (simp add: AssembledPC_hook_result)
  qed
qed










text \<open>
  C7.  In any world whose instance attributes are those left by a successful
  \<^verbatim>\<open>initialize\<close>, \<^verbatim>\<open>apply(pc, x, y)\<close> is \<^verbatim>\<open>self.pc.apply(x, y)\<close> and
  \<^verbatim>\<open>applyTranspose(pc, x, y)\<close> is \<^verbatim>\<open>self.pc.applyTranspose(x, y)\<close>, on the inner PC;
  each makes this one library call and changes nothing else, in particular no instance
  attribute.
\<close>

theorem apply_delegates_to_inner_pc:
  assumes "fst (initialize cls lib0 opc s0) = Inr u"
    and "self s = self (snd (initialize cls lib0 opc s0))"
  shows "\<exists>ipc. self_pc (self s) = Some ipc \<and>
     apply_pc lib pc x y s = PC_apply lib ipc x y s \<and>
     applyTranspose lib pc x y s = PC_applyTranspose lib ipc x y s \<and>
     snd (apply_pc lib pc x y s) =
       s\<lparr>calls := calls s @ [(PCApply ipc x y, lib (calls s) (PCApply ipc x y))]\<rparr> \<and>
     snd (applyTranspose lib pc x y s) =
       s\<lparr>calls := calls s @ [(PCApplyTranspose ipc x y, lib (calls s) (PCApplyTranspose ipc x y))]\<rparr> \<and>
     self (snd (apply_pc lib pc x y s)) = self s \<and>
     self (snd (applyTranspose lib pc x y s)) = self s"
proof -
  from assms(1) obtain M cb where
    "self (snd (initialize cls lib0 opc s0)) =
       \<lparr>self_P = Some M, self_assemble_P = Some cb, self_pc = Some (Suc (next_handle s0))\<rparr>"
    by (elim initialize_InrE)
  with assms(2) have p: "self_pc (self s) = Some (Suc (next_handle s0))" by simp
  note d = apply_pc_apply[OF p, of lib pc x y]
  show ?thesis
    apply (rule exI[of _ "Suc (next_handle s0)"])
    apply (simp add: p d)
    apply (simp add: PC_apply_def PC_applyTranspose_def libcall_apply split: option.splits)
    done
qed

theorem apply_delegates_to_inner_pc_witness:
  "fst (initialize (override_form ExplicitSchurPC example_form) no_failure 2
          (example_world ''python'' ''python'' True)) = Inr () \<and>
   (\<exists>ipc. self_pc (self (snd (initialize (override_form ExplicitSchurPC example_form) no_failure 2
          (example_world ''python'' ''python'' True)))) = Some ipc \<and>
      apply_pc no_failure 2 (Vec 3) (Vec 4)
        (snd (initialize (override_form ExplicitSchurPC example_form) no_failure 2
          (example_world ''python'' ''python'' True))) =
      PC_apply no_failure ipc (Vec 3) (Vec 4)
        (snd (initialize (override_form ExplicitSchurPC example_form) no_failure 2
          (example_world ''python'' ''python'' True))) \<and>
      applyTranspose no_failure 2 (Vec 3) (Vec 4)
        (snd (initialize (override_form ExplicitSchurPC example_form) no_failure 2
          (example_world ''python'' ''python'' True))) =
      PC_applyTranspose no_failure ipc (Vec 3) (Vec 4)
        (snd (initialize (override_form ExplicitSchurPC example_form) no_failure 2
          (example_world ''python'' ''python'' True))))"
proof -
  let ?s = "snd (initialize (override_form ExplicitSchurPC example_form) no_failure 2
          (example_world ''python'' ''python'' True))"
  from apply_delegates_to_inner_pc[OF example_initialize_ok refl, of no_failure 2 "Vec 3" "Vec 4"]
  obtain ipc where "self_pc (self ?s) = Some ipc"
    "apply_pc no_failure 2 (Vec 3) (Vec 4) ?s = PC_apply no_failure ipc (Vec 3) (Vec 4) ?s"
    "applyTranspose no_failure 2 (Vec 3) (Vec 4) ?s = PC_applyTranspose no_failure ipc (Vec 3) (Vec 4) ?s"
    by (elim exE conjE) (rule that; assumption)
  then have c: "self_pc (self ?s) = Some ipc \<and>
    apply_pc no_failure 2 (Vec 3) (Vec 4) ?s = PC_apply no_failure ipc (Vec 3) (Vec 4) ?s \<and>
    applyTranspose no_failure 2 (Vec 3) (Vec 4) ?s = PC_applyTranspose no_failure ipc (Vec 3) (Vec 4) ?s"
    by simp
  show ?thesis
    by (rule conjI[OF example_initialize_ok], rule exI[of _ ipc], rule c)
qed

text \<open>
  C8.  \<^verbatim>\<open>ExplicitSchurPC.form\<close> is declared abstract and raises
  \<open>NotImplementedError\<close> whatever its arguments, so \<^verbatim>\<open>initialize\<close> of
  \<^verbatim>\<open>ExplicitSchurPC\<close> itself never succeeds and, once the two checks pass, raises
  \<open>NotImplementedError\<close> before anything is allocated; a subclass that overrides
  \<^verbatim>\<open>form\<close> has its own hook called, with \<^verbatim>\<open>(pc, test, trial)\<close>.
\<close>

theorem ExplicitSchurPC_form_not_implemented:
  "form_abstract ExplicitSchurPC \<and>
   form ExplicitSchurPC pc test trial s = Inl NotImplementedError \<and>
   fst (initialize ExplicitSchurPC lib opc s) \<noteq> Inr () \<and>
   (passes_validation s opc \<longrightarrow>
      initialize ExplicitSchurPC lib opc s = (Inl NotImplementedError, s)) \<and>
   hook_result (override_form ExplicitSchurPC f) opc s =
     f (PCobj opc) (TestFunction (function_spaces s (dm (pcs s opc))))
       (TrialFunction (function_spaces s (dm (pcs s opc)))) s"
proof (intro conjI impI)
  show "form_abstract ExplicitSchurPC"
    by (simp add: ExplicitSchurPC_def)
  show "form ExplicitSchurPC pc test trial s = Inl NotImplementedError"
    by (simp add: ExplicitSchurPC_def ExplicitSchurPC_form_def)
  show "fst (initialize ExplicitSchurPC lib opc s) \<noteq> Inr ()"
  proof
    assume "fst (initialize ExplicitSchurPC lib opc s) = Inr ()"
    then obtain a bcs where "hook_result ExplicitSchurPC opc s = Inr (a, bcs)"
      by (elim initialize_InrE)
    then show False by (simp add: ExplicitSchurPC_hook_result)
  qed
  show "initialize ExplicitSchurPC lib opc s = (Inl NotImplementedError, s)"
    if "passes_validation s opc"
    using that by (simp add: initialize_hook_raises ExplicitSchurPC_hook_result)
  show "hook_result (override_form ExplicitSchurPC f) opc s =
     f (PCobj opc) (TestFunction (function_spaces s (dm (pcs s opc))))
       (TrialFunction (function_spaces s (dm (pcs s opc)))) s"
    by (simp add: hook_result_def override_form_def)
qed

theorem ExplicitSchurPC_form_not_implemented_witness:
  "passes_validation (example_world ''python'' ''python'' True) 2 \<and>
   initialize ExplicitSchurPC no_failure 2 (example_world ''python'' ''python'' True) =
     (Inl NotImplementedError, example_world ''python'' ''python'' True)"
  using ExplicitSchurPC_form_not_implemented
          [of undefined undefined undefined "example_world ''python'' ''python'' True" no_failure 2]
        example_passes_validation(1)
  by simp

text \<open>
  C9.  The two validation errors leave the world, and with it the instance, unchanged:
  when the outer PC is not of type \<^verbatim>\<open>python\<close>, and when it is and the operator is a
  matrix-free off-diagonal block, \<^verbatim>\<open>initialize\<close> raises the \<open>ValueError\<close> of that
  check and the world after the call is the world before it (\<^verbatim>\<open>self.P\<close>,
  \<^verbatim>\<open>self._assemble_P\<close> and \<^verbatim>\<open>self.pc\<close> included).
\<close>

theorem validation_errors_leave_instance_unchanged:
  "(ptype (pcs s pc) \<noteq> ''python'' \<longrightarrow>
      fst (initialize cls lib pc s) = Inl (ValueError ''Expecting PC type python'') \<and>
      snd (initialize cls lib pc s) = s) \<and>
   (ptype (pcs s pc) = ''python'' \<and> off_diag_block s pc \<longrightarrow>
      fst (initialize cls lib pc s) = Inl (ValueError ''Only makes sense to invert diagonal block'') \<and>
      snd (initialize cls lib pc s) = s)"
proof (intro conjI impI)
  assume "ptype (pcs s pc) \<noteq> ''python''"
  then have "initialize cls lib pc s = (Inl (ValueError ''Expecting PC type python''), s)"
    by (rule initialize_wrong_kind)
  then show "fst (initialize cls lib pc s) = Inl (ValueError ''Expecting PC type python'')"
    and "snd (initialize cls lib pc s) = s"
    by simp_all
next
  assume "ptype (pcs s pc) = ''python'' \<and> off_diag_block s pc"
  then have "initialize cls lib pc s =
      (Inl (ValueError ''Only makes sense to invert diagonal block''), s)"
    by (simp add: initialize_off_diag)
  then show "fst (initialize cls lib pc s) =
      Inl (ValueError ''Only makes sense to invert diagonal block'')"
    and "snd (initialize cls lib pc s) = s"
    by simp_all
qed

theorem validation_errors_leave_instance_unchanged_witness:
  "ptype (pcs (example_world ''ksp'' ''python'' True) 2) \<noteq> ''python'' \<and>
   fst (initialize AssembledPC no_failure 2 (example_world ''ksp'' ''python'' True)) =
     Inl (ValueError ''Expecting PC type python'') \<and>
   self (snd (initialize AssembledPC no_failure 2 (example_world ''ksp'' ''python'' True))) =
     \<lparr>self_P = None, self_assemble_P = None, self_pc = None\<rparr> \<and>
   ptype (pcs (example_world ''python'' ''python'' False) 2) = ''python'' \<and>
   off_diag_block (example_world ''python'' ''python'' False) 2 \<and>
   fst (initialize ExplicitSchurPC no_failure 2 (example_world ''python'' ''python'' False)) =
     Inl (ValueError ''Only makes sense to invert diagonal block'') \<and>
   self (snd (initialize ExplicitSchurPC no_failure 2 (example_world ''python'' ''python'' False))) =
     \<lparr>self_P = None, self_assemble_P = None, self_pc = None\<rparr>"
proof -
  have a: "ptype (pcs (example_world ''ksp'' ''python'' True) 2) \<noteq> ''python''"
    by (simp add: example_world_def)
  have b: "ptype (pcs (example_world ''python'' ''python'' False) 2) = ''python''"
    by (simp add: example_world_def)
  have c: "off_diag_block (example_world ''python'' ''python'' False) 2"
    by (simp add: off_diag_block_def example_world_def)
  have d: "self (example_world pty mty od) = \<lparr>self_P = None, self_assemble_P = None, self_pc = None\<rparr>"
    for pty mty od by (simp add: example_world_def)
  show ?thesis
    using a b c d
      validation_errors_leave_instance_unchanged
        [of "example_world ''ksp'' ''python'' True" 2 AssembledPC no_failure]
      validation_errors_leave_instance_unchanged
        [of "example_world ''python'' ''python'' False" 2 ExplicitSchurPC no_failure]
    by simp
qed

text \<open>
  C10.  The default hook asserts that \<open>P\<close> has type \<^verbatim>\<open>python\<close>: called in its declared
  order on an outer PC whose operator is an assembled \<^verbatim>\<open>aij\<close> matrix it raises
  \<open>AssertionError\<close>.  \<^verbatim>\<open>initialize\<close> does not reach this assertion: on the same world
  it fails before, at \<^verbatim>\<open>pc.getOperators()\<close> on the trial function, with
  \<open>AttributeError\<close>.
\<close>

theorem default_form_hook_assertion_not_reached:
  "initialize AssembledPC no_failure 2 (example_world ''python'' ''aij'' True) =
     (Inl (AttributeError ''getOperators''), example_world ''python'' ''aij'' True) \<and>
   AssembledPC_form (TestFunction (FunctionSpace 4)) (TrialFunction (FunctionSpace 4)) (PCobj 2)
     (example_world ''python'' ''aij'' True) = Inl AssertionError"
  by (simp add: default_form_raises_AttributeError example_passes_validation
      AssembledPC_form_def getPythonContext_def example_operator)

end
